theory Spec2Isabelle
  imports Complex_Main
begin

section \<open>Reimbursement calculator\<close>

text \<open>
  The form component \<^verbatim>\<open>RequestForm\<close> suggests a reimbursement amount from a monthly
  gross salary. JavaScript numbers are IEEE-754 doubles; they are modelled here as real
  numbers. \<^verbatim>\<open>calculateReimbursement\<close> performs a single multiplication and two
  comparisons, and every property below compares its result with that same product, so
  none of them depends on how the product is rounded.
\<close>

definition BASE_SALARY :: real where
  "BASE_SALARY = 2018.36"

definition SALARY_PERCENTAGE :: real where
  "SALARY_PERCENTAGE = 0.9"

definition calculateReimbursement :: "real \<Rightarrow> real" where
  "calculateReimbursement salary =
     (if salary \<le> 0 then 0
      else
        let maxReimbursable = salary * SALARY_PERCENTAGE
        in if maxReimbursable \<le> BASE_SALARY then BASE_SALARY else maxReimbursable)"

section \<open>Dependent list editor\<close>

text \<open>
  A dependent is a JavaScript object with the keys \<^verbatim>\<open>name\<close> and \<^verbatim>\<open>relationship\<close>.
  Objects are modelled as finite maps from keys to strings, so that an object lacking a
  key (which the spread \<^verbatim>\<open>{...undefined, [field]: value}\<close> produces) can be written down.
  The state \<^verbatim>\<open>dependents\<close> is a JavaScript array: a list of slots, where \<open>None\<close> is a
  slot that reads as \<^verbatim>\<open>undefined\<close>.
\<close>

datatype Dependent_key = Name | Relationship

type_synonym Dependent = "Dependent_key \<rightharpoonup> string"

type_synonym 'a js_array = "'a option list"

text \<open>
  Reading \<^verbatim>\<open>xs[i]\<close>: outside the array the result is \<^verbatim>\<open>undefined\<close>.
\<close>

definition array_get :: "'a js_array \<Rightarrow> int \<Rightarrow> 'a option" where
  "array_get xs i = (if 0 \<le> i \<and> nat i < length xs then xs ! nat i else None)"

text \<open>
  Writing \<^verbatim>\<open>xs[i] = v\<close>: an index inside the array replaces the slot; an index at or
  beyond the length extends the array, leaving empty slots in between; a negative index,
  or one that is not an array index (\<open>2\<^sup>3\<^sup>2 - 1\<close> and above), only sets a named property on
  the array object and leaves its elements and its length as they are. Indices are
  integers here; a number that is not an integer behaves like a negative one.
\<close>

definition array_set :: "'a js_array \<Rightarrow> int \<Rightarrow> 'a \<Rightarrow> 'a js_array" where
  "array_set xs i v =
     (if i < 0 \<or> 2 ^ 32 - 1 \<le> i then xs
      else if nat i < length xs then xs[nat i := Some v]
      else xs @ replicate (nat i - length xs) None @ [Some v])"

text \<open>The spread \<^verbatim>\<open>{...x}\<close> of an object, or of \<^verbatim>\<open>undefined\<close>.\<close>

definition spread :: "Dependent option \<Rightarrow> Dependent" where
  "spread x = (case x of None \<Rightarrow> Map.empty | Some d \<Rightarrow> d)"

definition addDependent :: "Dependent js_array \<Rightarrow> Dependent js_array" where
  "addDependent dependents = dependents @ [Some [Name \<mapsto> [], Relationship \<mapsto> []]]"

definition updateDependent ::
  "Dependent js_array \<Rightarrow> int \<Rightarrow> Dependent_key \<Rightarrow> string \<Rightarrow> Dependent js_array" where
  "updateDependent dependents index field v =
     (let updated = dependents
      in array_set updated index ((spread (array_get updated index))(field \<mapsto> v)))"


section \<open>File upload\<close>

record File =
  name :: string
  size_f :: nat

record Profile =
  id_profile :: string

text \<open>The test \<^verbatim>\<open>!profile?.id\<close>: no profile, or a profile whose id is the empty string.\<close>

definition profile_id_missing :: "Profile option \<Rightarrow> bool" where
  "profile_id_missing profile = (case profile of None \<Rightarrow> True | Some p \<Rightarrow> id_profile p = [])"

text \<open>
  One call of \<^verbatim>\<open>supabase.storage.from(bucket).upload(path, file, options)\<close> and its
  answer \<^verbatim>\<open>{ data, error }\<close>. \<open>data_path\<close> is \<^verbatim>\<open>data?.path\<close> (\<open>None\<close> when \<^verbatim>\<open>data\<close> is
  null or carries no path), \<open>error_msg\<close> is the message of \<^verbatim>\<open>error\<close> when there is one.
\<close>

record UploadCall =
  bucket :: string
  path :: string
  body :: File
  cacheControl :: string
  upsert :: bool

record UploadResponse =
  data_path :: "string option"
  error_msg :: "string option"

text \<open>
  The storage service and the clock are outside the component. They are parameters of the
  model: \<open>now\<close> is \<^verbatim>\<open>Date.now()\<close>, \<open>upload\<close> is the storage call, both acting on a state
  \<open>'w\<close> of the outside world, and \<open>stored\<close> reads the object kept under a key. The
  storage call always answers with \<^verbatim>\<open>{ data, error }\<close>, as the storage client does when a
  transfer fails; an exception thrown by the client itself is not part of the model.
\<close>

record 'w Storage =
  now :: "'w \<Rightarrow> nat \<times> 'w"
  upload :: "UploadCall \<Rightarrow> 'w \<Rightarrow> UploadResponse \<times> 'w"
  stored :: "'w \<Rightarrow> string \<Rightarrow> File option"

text \<open>
  A record of one storage call made by \<^verbatim>\<open>uploadFiles\<close>: the timestamp read for it, the
  call and the answer. The list of these records is kept beside the result, so that what
  was sent over the network, and in which order, can be stated.
\<close>

record Interaction =
  stamp :: nat
  call :: UploadCall
  response :: UploadResponse

text \<open>
  The three errors \<^verbatim>\<open>uploadFiles\<close> throws, each with the name of the file it is about,
  and the message of the \<^verbatim>\<open>Error\<close> object. The characters beyond ASCII are single
  UTF-16 code units below 256.
\<close>

datatype UploadError =
  FileTooLarge string
  | UploadFailed string string
  | NoValidPath string


definition a_acute :: char where "a_acute = CHR 0xE1"
definition a_tilde :: char where "a_tilde = CHR 0xE3"

fun message :: "UploadError \<Rightarrow> string" where
  "message (FileTooLarge n) = ''Arquivo '' @ n @ '' excede o limite de 50MB''"
| "message (UploadFailed n m) = ''Erro ao fazer upload do arquivo '' @ n @ '': '' @ m"
| "message (NoValidPath n) =
     ''Upload n'' @ [a_tilde] @ ''o retornou um caminho v'' @ [a_acute] @ ''lido para '' @ n"

text \<open>A number inside a template string: its decimal digits.\<close>

definition digit_char :: "nat \<Rightarrow> char" where
  "digit_char d = ''0123456789'' ! d"

function decimal :: "nat \<Rightarrow> string" where
  "decimal n = (if n < 10 then [digit_char n] else decimal (n div 10) @ [digit_char (n mod 10)])"
  by pat_completeness auto
termination
  by (relation "measure (\<lambda>n. n)") auto

declare decimal.simps [simp del]

text \<open>The template \<^verbatim>\<open>`${profile.id}/${timestamp}-${file.name}`\<close>.\<close>

definition storage_key :: "string \<Rightarrow> nat \<Rightarrow> string \<Rightarrow> string" where
  "storage_key owner timestamp file_name = owner @ ''/'' @ decimal timestamp @ ''-'' @ file_name"

text \<open>
  Reading a string of decimal digits back as a number; it is used below to say what
  \<open>decimal\<close> produces.
\<close>

definition digit_value :: "char \<Rightarrow> nat" where
  "digit_value c = of_char c - 48"

definition read_decimal :: "string \<Rightarrow> nat" where
  "read_decimal s = foldl (\<lambda>a c. 10 * a + digit_value c) 0 s"

text \<open>
  The body of \<^verbatim>\<open>uploadFiles\<close> after its guard: the \<^verbatim>\<open>for\<close> loop over the files, with the
  paths collected so far in \<open>uploadedUrls\<close>. A \<^verbatim>\<open>throw\<close> is the result \<open>Inl\<close>; the
  \<^verbatim>\<open>catch\<close> block rethrows the error unchanged. The calls to \<^verbatim>\<open>console\<close> are left out.
\<close>

fun upload_loop ::
  "'w Storage \<Rightarrow> string \<Rightarrow> File list \<Rightarrow> string list \<Rightarrow> Interaction list \<Rightarrow> 'w \<Rightarrow>
   (UploadError + string list) \<times> Interaction list \<times> 'w" where
  "upload_loop env owner [] uploadedUrls calls w = (Inr uploadedUrls, calls, w)"
| "upload_loop env owner (file # files) uploadedUrls calls w =
     (if size_f file > 50 * 1024 * 1024 then (Inl (FileTooLarge (name file)), calls, w)
      else
        let (timestamp, w1) = now env w;
            fileName = storage_key owner timestamp (name file);
            c = \<lparr>bucket = ''request-attachments'', path = fileName, body = file,
                 cacheControl = ''3600'', upsert = False\<rparr>;
            (r, w2) = upload env c w1;
            calls' = calls @ [\<lparr>stamp = timestamp, call = c, response = r\<rparr>]
        in case error_msg r of
             Some m \<Rightarrow> (Inl (UploadFailed (name file) m), calls', w2)
           | None \<Rightarrow>
               (case data_path r of
                  None \<Rightarrow> (Inl (NoValidPath (name file)), calls', w2)
                | Some p \<Rightarrow>
                    if p = [] then (Inl (NoValidPath (name file)), calls', w2)
                    else upload_loop env owner files (uploadedUrls @ [p]) calls' w2))"

definition uploadFiles ::
  "'w Storage \<Rightarrow> Profile option \<Rightarrow> File list \<Rightarrow> 'w \<Rightarrow>
   (UploadError + string list) \<times> Interaction list \<times> 'w" where
  "uploadFiles env profile files w =
     (case profile of
        None \<Rightarrow> (Inr [], [], w)
      | Some p \<Rightarrow>
          if id_profile p = [] \<or> files = [] then (Inr [], [], w)
          else upload_loop env (id_profile p) files [] [] w)"

text \<open>
  The body of the loop for a single file, on its own: what it returns or throws, the storage
  call it makes (none for a file over the limit) and the outside world after it. The loop
  is characterised through it below.
\<close>

definition upload_one ::
  "'w Storage \<Rightarrow> string \<Rightarrow> File \<Rightarrow> 'w \<Rightarrow> (UploadError + string) \<times> Interaction list \<times> 'w" where
  "upload_one env owner file w =
     (if size_f file > 50 * 1024 * 1024 then (Inl (FileTooLarge (name file)), [], w)
      else
        let (timestamp, w1) = now env w;
            fileName = storage_key owner timestamp (name file);
            c = \<lparr>bucket = ''request-attachments'', path = fileName, body = file,
                 cacheControl = ''3600'', upsert = False\<rparr>;
            (r, w2) = upload env c w1;
            i = \<lparr>stamp = timestamp, call = c, response = r\<rparr>
        in case error_msg r of
             Some m \<Rightarrow> (Inl (UploadFailed (name file) m), [i], w2)
           | None \<Rightarrow>
               (case data_path r of
                  None \<Rightarrow> (Inl (NoValidPath (name file)), [i], w2)
                | Some p \<Rightarrow>
                    if p = [] then (Inl (NoValidPath (name file)), [i], w2)
                    else (Inr p, [i], w2)))"

text \<open>
  A storage service honours \<^verbatim>\<open>upsert: false\<close> when a call made with that option never
  changes an object that is already stored, and reading the clock does not touch the store.
\<close>

definition honours_no_upsert :: "'w Storage \<Rightarrow> bool" where
  "honours_no_upsert env =
     ((\<forall>c w k v. \<not> upsert c \<longrightarrow> stored env w k = Some v \<longrightarrow>
          stored env (snd (upload env c w)) k = Some v) \<and>
      (\<forall>w. stored env (snd (now env w)) = stored env w))"

section \<open>Submission\<close>

text \<open>
  The values of the form and the zod schema \<^verbatim>\<open>formSchema\<close> that the form's resolver
  applies to them: a CPF of exactly eleven ASCII digits, an amount of at least 0.01, a
  chosen polo and, when present, a salary that is not negative.
\<close>

record FormData =
  cpf :: string
  amount :: real
  polo :: string
  salary :: "real option"

definition is_digit :: "char \<Rightarrow> bool" where
  "is_digit c = (c \<in> set ''0123456789'')"



text \<open>An entry of the invoice list; only its optional file handle is read here.\<close>

record InvoiceEntry =
  inv_file :: "File option"


text \<open>The state of the component that \<^verbatim>\<open>onSubmit\<close> reads and writes.\<close>

record UiState =
  form :: FormData
  dependents :: "Dependent js_array"
  invoices :: "InvoiceEntry list"
  showCalculator :: bool
  uploading :: bool














section \<open>A reference environment\<close>

text \<open>
  A small storage service and backend on which the functions above can be run: a clock
  that advances by one at each reading, a store of objects by key that refuses to replace
  an object unless \<open>upsert\<close> is set, and a list of file names whose transfer fails.
\<close>

record RefWorld =
  clock :: nat
  objects :: "(string \<times> File) list"
  unreachable :: "string list"

definition ref_upload :: "UploadCall \<Rightarrow> RefWorld \<Rightarrow> UploadResponse \<times> RefWorld" where
  "ref_upload c w =
     (if name (body c) \<in> set (unreachable w)
      then (\<lparr>data_path = None, error_msg = Some ''Failed to fetch''\<rparr>, w)
      else if upsert c then
        (\<lparr>data_path = Some (path c), error_msg = None\<rparr>,
         w\<lparr>objects := (path c, body c) # objects w\<rparr>)
      else
        (case map_of (objects w) (path c) of
           Some old \<Rightarrow> (\<lparr>data_path = None, error_msg = Some ''The resource already exists''\<rparr>, w)
         | None \<Rightarrow>
             (\<lparr>data_path = Some (path c), error_msg = None\<rparr>,
              w\<lparr>objects := (path c, body c) # objects w\<rparr>)))"

definition ref_storage :: "RefWorld Storage" where
  "ref_storage =
     \<lparr>now = (\<lambda>w. (clock w, w\<lparr>clock := Suc (clock w)\<rparr>)),
      upload = ref_upload,
      stored = (\<lambda>w. map_of (objects w))\<rparr>"


text \<open>Sample inputs on which the functions are run below.\<close>

definition owner0 :: "Profile option" where
  "owner0 = Some \<lparr>id_profile = ''u1''\<rparr>"

definition file_old :: File where
  "file_old = \<lparr>name = ''old.pdf'', size_f = 512\<rparr>"

definition file_a :: File where
  "file_a = \<lparr>name = ''a.pdf'', size_f = 1048576\<rparr>"

definition file_b :: File where
  "file_b = \<lparr>name = ''b.pdf'', size_f = 62914560\<rparr>"


definition file_d :: File where
  "file_d = \<lparr>name = ''d.png'', size_f = 4096\<rparr>"

definition world0 :: RefWorld where
  "world0 = \<lparr>clock = 5, objects = [(''u1/4-old.pdf'', file_old)], unreachable = [''c.pdf'']\<rparr>"

definition world1 :: RefWorld where
  "world1 =
     \<lparr>clock = 6, objects = [(''u1/5-a.pdf'', file_a), (''u1/4-old.pdf'', file_old)],
      unreachable = [''c.pdf'']\<rparr>"


definition owner1 :: "Profile option" where
  "owner1 = Some \<lparr>id_profile = ''7f3c-user''\<rparr>"

definition world_ms :: RefWorld where
  "world_ms =
     \<lparr>clock = 1730626800123,
      objects = [(''7f3c-user/1730626700000-old.pdf'', file_old)],
      unreachable = []\<rparr>"

definition world_ms1 :: RefWorld where
  "world_ms1 =
     \<lparr>clock = 1730626800124,
      objects = [(''7f3c-user/1730626800123-a.pdf'', file_a),
                 (''7f3c-user/1730626700000-old.pdf'', file_old)],
      unreachable = []\<rparr>"

definition world_ms2 :: RefWorld where
  "world_ms2 =
     \<lparr>clock = 1730626800125,
      objects = [(''7f3c-user/1730626800124-d.png'', file_d),
                 (''7f3c-user/1730626800123-a.pdf'', file_a),
                 (''7f3c-user/1730626700000-old.pdf'', file_old)],
      unreachable = []\<rparr>"

definition ok_interaction :: "nat \<Rightarrow> string \<Rightarrow> File \<Rightarrow> Interaction" where
  "ok_interaction t k f =
     \<lparr>stamp = t,
      call = \<lparr>bucket = ''request-attachments'', path = k, body = f, cacheControl = ''3600'',
               upsert = False\<rparr>,
      response = \<lparr>data_path = Some k, error_msg = None\<rparr>\<rparr>"

definition failed_interaction :: "nat \<Rightarrow> string \<Rightarrow> File \<Rightarrow> string \<Rightarrow> Interaction" where
  "failed_interaction t k f m =
     \<lparr>stamp = t,
      call = \<lparr>bucket = ''request-attachments'', path = k, body = f, cacheControl = ''3600'',
               upsert = False\<rparr>,
      response = \<lparr>data_path = None, error_msg = Some m\<rparr>\<rparr>"



section \<open>Properties of the reimbursement calculator\<close>

text \<open>
  C1. For every salary strictly greater than 0, \<^verbatim>\<open>calculateReimbursement(salary)\<close> is
  the floor 2018.36 when \<^verbatim>\<open>salary * 0.9 <= 2018.36\<close>, and \<^verbatim>\<open>salary * 0.9\<close> when
  \<^verbatim>\<open>salary * 0.9 > 2018.36\<close>.
\<close>

theorem calculateReimbursement_positive:
  "0 < s \<Longrightarrow>
     (s * 0.9 \<le> 2018.36 \<longrightarrow> calculateReimbursement s = 2018.36) \<and>
     (s * 0.9 > 2018.36 \<longrightarrow> calculateReimbursement s = s * 0.9)"
  by (simp add: calculateReimbursement_def BASE_SALARY_def SALARY_PERCENTAGE_def Let_def)

theorem calculateReimbursement_positive_witness:
  "(0::real) < 1500 \<and> (1500::real) * 0.9 \<le> 2018.36 \<and> calculateReimbursement 1500 = 2018.36 \<and>
   (0::real) < 3000 \<and> (3000::real) * 0.9 > 2018.36 \<and> calculateReimbursement 3000 = 3000 * 0.9"
  using calculateReimbursement_positive [of 1500] calculateReimbursement_positive [of 3000]
  by simp

text \<open>
  C9. For every salary less than or equal to 0 the function returns 0: the guard on the
  sign of the salary comes before the comparison with the floor, which on its own would
  have produced 2018.36 for such a salary.
\<close>

theorem calculateReimbursement_nonpositive:
  "s \<le> 0 \<Longrightarrow>
     calculateReimbursement s = 0 \<and>
     (let maxReimbursable = s * SALARY_PERCENTAGE
      in if maxReimbursable \<le> BASE_SALARY then BASE_SALARY else maxReimbursable) = 2018.36"
proof -
  assume neg: "s \<le> 0"
  have "s * SALARY_PERCENTAGE \<le> 0"
    using neg by (simp add: SALARY_PERCENTAGE_def mult_le_0_iff)
  then have "s * SALARY_PERCENTAGE \<le> BASE_SALARY"
    by (simp add: BASE_SALARY_def)
  then show ?thesis
    using neg by (simp add: calculateReimbursement_def Let_def BASE_SALARY_def)
qed

theorem calculateReimbursement_nonpositive_witness:
  "(-250::real) \<le> 0 \<and> calculateReimbursement (-250) = 0 \<and>
   (let maxReimbursable = (-250) * SALARY_PERCENTAGE
    in if maxReimbursable \<le> BASE_SALARY then BASE_SALARY else maxReimbursable) = 2018.36"
  using calculateReimbursement_nonpositive [of "-250"]
  by simp

section \<open>Properties of the dependent list editor\<close>

text \<open>
  C4, as stated: for an index outside the list, \<^verbatim>\<open>updateDependent\<close> leaves the list as it
  is. This fails for an index at or beyond the length. With one dependent in the list and
  the index 1, the function appends a second object, which carries only the updated key.
\<close>

theorem updateDependent_not_noop:
  "int (length (addDependent [])) \<le> 1 \<and>
   updateDependent (addDependent []) 1 Relationship ''filho'' \<noteq> addDependent []"
  by (simp add: updateDependent_def addDependent_def array_set_def array_get_def)

text \<open>
  C4, amended. For a negative index (or one that is not an array index at all)
  \<^verbatim>\<open>updateDependent\<close> leaves the list as it is. For an index at or beyond the length of the
  list it is not a no-op: the list is extended up to that index, the original elements
  stay in place, the positions in between are empty, and the position \<open>index\<close> holds an
  object with the updated key alone.
\<close>

theorem updateDependent_out_of_bounds:
  "(index < 0 \<or> 2 ^ 32 - 1 \<le> index \<longrightarrow> updateDependent ds index field v = ds) \<and>
   (int (length ds) \<le> index \<and> index < 2 ^ 32 - 1 \<longrightarrow>
      updateDependent ds index field v =
        ds @ replicate (nat index - length ds) None @ [Some [field \<mapsto> v]])"
proof -
  have "index < 0 \<or> 2 ^ 32 - 1 \<le> index \<Longrightarrow> updateDependent ds index field v = ds"
    by (simp add: updateDependent_def array_set_def)
  moreover have "updateDependent ds index field v =
        ds @ replicate (nat index - length ds) None @ [Some [field \<mapsto> v]]"
    if "int (length ds) \<le> index" "index < 2 ^ 32 - 1"
  proof -
    from that have "\<not> nat index < length ds" "\<not> index < 0" by linarith+
    with that show ?thesis
      by (simp add: updateDependent_def array_set_def array_get_def spread_def)
  qed
  ultimately show ?thesis by blast
qed

theorem updateDependent_out_of_bounds_witness:
  "(-1::int) < 0 \<and>
   updateDependent (addDependent []) (-1) Name ''Ana'' = addDependent [] \<and>
   int (length (addDependent [])) \<le> 3 \<and> (3::int) < 2 ^ 32 - 1 \<and>
   updateDependent (addDependent []) 3 Name ''Ana'' =
     [Some [Name \<mapsto> [], Relationship \<mapsto> []], None, None, Some [Name \<mapsto> ''Ana'']]"
proof -
  have len: "int (length (addDependent [])) \<le> 3"
    by (simp add: addDependent_def)
  have r: "replicate (nat 3 - length (addDependent [])) None = [None, None :: Dependent option]"
    by (simp add: addDependent_def numeral_2_eq_2)
  from updateDependent_out_of_bounds [of "-1" "addDependent []" Name "''Ana''"]
    updateDependent_out_of_bounds [of 3 "addDependent []" Name "''Ana''"] len r
  show ?thesis by (simp add: addDependent_def)
qed

section \<open>Properties of the file upload\<close>

subsection \<open>The decimal digits of a timestamp\<close>

text \<open>
  \<open>decimal n\<close> is the usual decimal numeral of \<open>n\<close>: digits only, no leading zero, and
  reading it back gives \<open>n\<close>.
\<close>

lemma digit_char_value: "d < 10 \<Longrightarrow> digit_value (digit_char d) = d \<and> is_digit (digit_char d)"
proof -
  assume "d < 10"
  then have "d = 0 \<or> d = 1 \<or> d = 2 \<or> d = 3 \<or> d = 4 \<or> d = 5 \<or> d = 6 \<or> d = 7 \<or> d = 8 \<or> d = 9"
    by arith
  then show ?thesis
    by (auto simp add: digit_char_def digit_value_def is_digit_def)
qed

lemma decimal_nonempty: "decimal n \<noteq> []"
  by (subst decimal.simps) simp

lemma read_decimal_snoc: "read_decimal (xs @ [c]) = 10 * read_decimal xs + digit_value c"
  by (simp add: read_decimal_def)

lemma read_decimal_single: "read_decimal [c] = digit_value c"
  by (simp add: read_decimal_def)

lemma decimal_read: "read_decimal (decimal n) = n"
proof (induction n rule: decimal.induct)
  case (1 n)
  show ?case
  proof (cases "n < 10")
    case True
    then show ?thesis
      by (subst decimal.simps) (simp add: read_decimal_single digit_char_value)
  next
    case False
    with "1" have ih: "read_decimal (decimal (n div 10)) = n div 10" by simp
    have "n mod 10 < 10" by simp
    then have "digit_value (digit_char (n mod 10)) = n mod 10"
      using digit_char_value by blast
    with False ih show ?thesis
      by (subst decimal.simps) (simp add: read_decimal_snoc)
  qed
qed

lemma decimal_digits: "list_all is_digit (decimal n)"
proof (induction n rule: decimal.induct)
  case (1 n)
  show ?case
  proof (cases "n < 10")
    case True
    then show ?thesis
      by (subst decimal.simps) (simp add: digit_char_value)
  next
    case False
    with "1" have ih: "list_all is_digit (decimal (n div 10))" by simp
    have "n mod 10 < 10" by simp
    then have "is_digit (digit_char (n mod 10))"
      using digit_char_value by blast
    with False ih show ?thesis
      by (subst decimal.simps) simp
  qed
qed

lemma decimal_no_leading_zero: "n \<noteq> 0 \<Longrightarrow> hd (decimal n) \<noteq> CHR ''0''"
proof (induction n rule: decimal.induct)
  case (1 n)
  show ?case
  proof (cases "n < 10")
    case True
    have "digit_char n \<noteq> CHR ''0''"
    proof
      assume z: "digit_char n = CHR ''0''"
      from True have "digit_value (digit_char n) = n"
        using digit_char_value by blast
      with z have "n = 0" by (simp add: digit_value_def)
      with "1.prems" show False by simp
    qed
    with True show ?thesis
      by (subst decimal.simps) simp
  next
    case False
    then have "n div 10 \<noteq> 0" by simp
    with "1.IH" False have "hd (decimal (n div 10)) \<noteq> CHR ''0''" by simp
    with False show ?thesis
      by (subst decimal.simps) (simp add: decimal_nonempty)
  qed
qed

subsection \<open>The loop, one file at a time\<close>

lemma upload_loop_Cons:
  "upload_loop env owner (f # fs) acc cs w =
     (case upload_one env owner f w of
        (Inl e, c, w') \<Rightarrow> (Inl e, cs @ c, w')
      | (Inr p, c, w') \<Rightarrow> upload_loop env owner fs (acc @ [p]) (cs @ c) w')"
  by (simp add: upload_one_def Let_def split: prod.splits option.splits)

lemma upload_one_cases:
  assumes "upload_one env owner f w = (r, c, w')"
  obtains (too_large) "50 * 1024 * 1024 < size_f f" "r = Inl (FileTooLarge (name f))" "c = []" "w' = w"
  | (called) ts w1 a where
      "\<not> 50 * 1024 * 1024 < size_f f"
      "now env w = (ts, w1)"
      "upload env \<lparr>bucket = ''request-attachments'', path = storage_key owner ts (name f),
          body = f, cacheControl = ''3600'', upsert = False\<rparr> w1 = (a, w')"
      "c = [\<lparr>stamp = ts, call = \<lparr>bucket = ''request-attachments'',
          path = storage_key owner ts (name f), body = f, cacheControl = ''3600'',
          upsert = False\<rparr>, response = a\<rparr>]"
      "r = (case error_msg a of
             Some m \<Rightarrow> Inl (UploadFailed (name f) m)
           | None \<Rightarrow> (case data_path a of None \<Rightarrow> Inl (NoValidPath (name f))
                | Some p \<Rightarrow> if p = [] then Inl (NoValidPath (name f)) else Inr p))"
proof (cases "50 * 1024 * 1024 < size_f f")
  case True
  with assms too_large show ?thesis by (simp add: upload_one_def)
next
  case False
  obtain ts w1 where n: "now env w = (ts, w1)" by (cases "now env w")
  obtain a w2 where u: "upload env \<lparr>bucket = ''request-attachments'', path = storage_key owner ts (name f),
          body = f, cacheControl = ''3600'', upsert = False\<rparr> w1 = (a, w2)"
    by (cases "upload env \<lparr>bucket = ''request-attachments'', path = storage_key owner ts (name f),
          body = f, cacheControl = ''3600'', upsert = False\<rparr> w1")
  from assms False n u have "w' = w2 \<and> c = [\<lparr>stamp = ts, call = \<lparr>bucket = ''request-attachments'',
          path = storage_key owner ts (name f), body = f, cacheControl = ''3600'',
          upsert = False\<rparr>, response = a\<rparr>] \<and> r = (case error_msg a of
             Some m \<Rightarrow> Inl (UploadFailed (name f) m)
           | None \<Rightarrow> (case data_path a of None \<Rightarrow> Inl (NoValidPath (name f))
                | Some p \<Rightarrow> if p = [] then Inl (NoValidPath (name f)) else Inr p))"
    by (simp add: upload_one_def Let_def split: option.splits if_splits)
  with called False n u show ?thesis by blast
qed

declare upload_loop.simps(2) [simp del]

lemma upload_loop_append:
  "upload_loop env owner (xs @ ys) acc cs w =
     (case upload_loop env owner xs acc cs w of
        (Inl e, cs', w') \<Rightarrow> (Inl e, cs', w')
      | (Inr ps, cs', w') \<Rightarrow> upload_loop env owner ys ps cs' w')"
proof (induction xs arbitrary: acc cs w)
  case Nil
  show ?case by simp
next
  case (Cons x xs)
  show ?case
    by (simp add: upload_loop_Cons Cons.IH split: prod.splits sum.splits)
qed

lemma uploadFiles_present:
  "id_profile p \<noteq> [] \<Longrightarrow>
     uploadFiles env (Some p) files w = upload_loop env (id_profile p) files [] [] w"
  by (cases files) (simp_all add: uploadFiles_def)




lemma upload_loop_success_key:
  "upload_loop env owner fs acc cs w = (Inr paths, calls, w') \<Longrightarrow>
     \<exists>new ps. calls = cs @ new \<and> paths = acc @ ps \<and>
       map (\<lambda>i. data_path (response i)) new = map Some ps \<and>
       map (\<lambda>i. body (call i)) new = fs \<and>
       (\<forall>i\<in>set new.
          path (call i) = owner @ ''/'' @ decimal (stamp i) @ ''-'' @ name (body (call i)) \<and>
          bucket (call i) = ''request-attachments'' \<and> \<not> upsert (call i))"
proof (induction fs arbitrary: acc cs w)
  case Nil
  then show ?case by simp
next
  case (Cons f fs)
  obtain r c w1 where u: "upload_one env owner f w = (r, c, w1)"
    by (cases "upload_one env owner f w")
  with Cons.prems obtain p where r: "r = Inr p"
    and rest: "upload_loop env owner fs (acc @ [p]) (cs @ c) w1 = (Inr paths, calls, w')"
    by (cases r) (simp_all add: upload_loop_Cons)
  from Cons.IH [OF rest] obtain new ps where ih:
    "calls = (cs @ c) @ new" "paths = (acc @ [p]) @ ps"
    "map (\<lambda>i. data_path (response i)) new = map Some ps"
    "map (\<lambda>i. body (call i)) new = fs"
    "\<forall>i\<in>set new.
        path (call i) = owner @ ''/'' @ decimal (stamp i) @ ''-'' @ name (body (call i)) \<and>
        bucket (call i) = ''request-attachments'' \<and> \<not> upsert (call i)"
    by blast
  from u r have c: "map (\<lambda>i. data_path (response i)) c = [Some p] \<and>
      map (\<lambda>i. body (call i)) c = [f] \<and>
      (\<forall>i\<in>set c.
         path (call i) = owner @ ''/'' @ decimal (stamp i) @ ''-'' @ name (body (call i)) \<and>
         bucket (call i) = ''request-attachments'' \<and> \<not> upsert (call i))"
    by (cases rule: upload_one_cases) (auto simp add: storage_key_def split: option.splits if_splits)
  show ?case
    apply (rule exI [of _ "c @ new"])
    apply (rule exI [of _ "p # ps"])
    using ih c by auto
qed

lemma upload_one_keeps:
  assumes "honours_no_upsert env" and "stored env w k = Some v"
    and "upload_one env owner f w = (r, c, w')"
  shows "stored env w' k = Some v"
  using assms(3)
proof (cases rule: upload_one_cases)
  case too_large
  with assms(2) show ?thesis by simp
next
  case (called ts w1 a)
  from assms(1) have "stored env (snd (now env w)) = stored env w"
    by (simp add: honours_no_upsert_def)
  with called(2) assms(2) have "stored env w1 k = Some v" by simp
  moreover from assms(1) have "\<And>c x. \<not> upsert c \<Longrightarrow> stored env x k = Some v \<Longrightarrow>
      stored env (snd (upload env c x)) k = Some v"
    unfolding honours_no_upsert_def by blast
  ultimately have "stored env (snd (upload env \<lparr>bucket = ''request-attachments'', path = storage_key owner ts (name f),
          body = f, cacheControl = ''3600'', upsert = False\<rparr> w1)) k = Some v"
    by simp
  with called(3) show ?thesis by simp
qed

lemma upload_loop_keeps:
  "honours_no_upsert env \<Longrightarrow> stored env w k = Some v \<Longrightarrow>
     upload_loop env owner fs acc cs w = (r, calls, w') \<Longrightarrow> stored env w' k = Some v"
proof (induction fs arbitrary: acc cs w)
  case Nil
  then show ?case by simp
next
  case (Cons f fs)
  obtain r1 c w1 where u: "upload_one env owner f w = (r1, c, w1)"
    by (cases "upload_one env owner f w")
  from Cons.prems(1,2) u have k: "stored env w1 k = Some v"
    by (rule upload_one_keeps)
  show ?case
  proof (cases r1)
    case (Inl e)
    with Cons.prems(3) u k show ?thesis by (simp add: upload_loop_Cons)
  next
    case (Inr p)
    with Cons.prems(3) u have "upload_loop env owner fs (acc @ [p]) (cs @ c) w1 = (r, calls, w')"
      by (simp add: upload_loop_Cons)
    with Cons.IH Cons.prems(1) k show ?thesis by blast
  qed
qed

subsection \<open>Runs on the sample inputs\<close>

lemma decimal_digit: "n < 10 \<Longrightarrow> decimal n = [digit_char n]"
  by (simp add: decimal.simps)

lemma storage_key_5: "storage_key ''u1'' 5 ''a.pdf'' = ''u1/5-a.pdf''"
  by (simp add: storage_key_def decimal_digit digit_char_def)


lemma upload_one_a:
  "upload_one ref_storage ''u1'' file_a world0 =
     (Inr ''u1/5-a.pdf'', [ok_interaction 5 ''u1/5-a.pdf'' file_a], world1)"
  by (simp add: upload_one_def ref_storage_def ref_upload_def world0_def world1_def file_a_def
      ok_interaction_def storage_key_5)


lemma run_a:
  "uploadFiles ref_storage owner0 [file_a] world0 =
     (Inr [''u1/5-a.pdf''], [ok_interaction 5 ''u1/5-a.pdf'' file_a], world1)"
  by (simp add: uploadFiles_def owner0_def upload_loop_Cons upload_one_a)


lemma decimal_ms: "decimal 1730626800123 = ''1730626800123''"
  by (simp add: decimal.simps digit_char_def)

lemma decimal_ms1: "decimal 1730626800124 = ''1730626800124''"
  by (simp add: decimal.simps digit_char_def)

lemma upload_one_ms_a:
  "upload_one ref_storage ''7f3c-user'' file_a world_ms =
     (Inr ''7f3c-user/1730626800123-a.pdf'',
      [ok_interaction 1730626800123 ''7f3c-user/1730626800123-a.pdf'' file_a], world_ms1)"
  by (simp add: upload_one_def ref_storage_def ref_upload_def world_ms_def world_ms1_def
      file_a_def ok_interaction_def storage_key_def decimal_ms)

lemma upload_one_ms_d:
  "upload_one ref_storage ''7f3c-user'' file_d world_ms1 =
     (Inr ''7f3c-user/1730626800124-d.png'',
      [ok_interaction 1730626800124 ''7f3c-user/1730626800124-d.png'' file_d], world_ms2)"
  by (simp add: upload_one_def ref_storage_def ref_upload_def world_ms1_def world_ms2_def
      file_d_def ok_interaction_def storage_key_def decimal_ms1)

lemma run_ms:
  "uploadFiles ref_storage owner1 [file_a, file_d] world_ms =
     (Inr [''7f3c-user/1730626800123-a.pdf'', ''7f3c-user/1730626800124-d.png''],
      [ok_interaction 1730626800123 ''7f3c-user/1730626800123-a.pdf'' file_a,
       ok_interaction 1730626800124 ''7f3c-user/1730626800124-d.png'' file_d], world_ms2)"
  by (simp add: uploadFiles_def owner1_def upload_loop_Cons upload_one_ms_a upload_one_ms_d)

text \<open>
  A second upload under a key that is already taken: the reference store refuses it, the
  call throws the error naming the file, and the stored object stays as it was.
\<close>

lemma run_existing_key:
  "uploadFiles ref_storage owner0 [file_a]
     \<lparr>clock = 5, objects = [(''u1/5-a.pdf'', file_old)], unreachable = []\<rparr> =
     (Inl (UploadFailed ''a.pdf'' ''The resource already exists''),
      [failed_interaction 5 ''u1/5-a.pdf'' file_a ''The resource already exists''],
      \<lparr>clock = 6, objects = [(''u1/5-a.pdf'', file_old)], unreachable = []\<rparr>)"
  by (simp add: uploadFiles_def owner0_def upload_loop_Cons upload_one_def ref_storage_def
      ref_upload_def file_a_def failed_interaction_def storage_key_5)

lemma ref_storage_honours: "honours_no_upsert ref_storage"
  by (auto simp add: honours_no_upsert_def ref_storage_def ref_upload_def split: option.splits)

subsection \<open>Failures\<close>



text \<open>
  C5. With an owner id present, let the files before \<open>f\<close> upload without error and let
  \<open>f\<close> be larger than 50 MiB (\<open>50 * 1024 * 1024\<close> bytes). Then \<^verbatim>\<open>uploadFiles\<close> throws the
  error that names \<open>f\<close>, and it does so before any storage call for \<open>f\<close>: the calls made
  and the outside world are exactly those left by the earlier files.
\<close>

theorem uploadFiles_rejects_oversize:
  assumes owner: "\<not> profile_id_missing profile"
    and pre: "uploadFiles env profile pre w = (Inr paths, calls, w1)"
    and big: "size_f f > 50 * 1024 * 1024"
  shows "uploadFiles env profile (pre @ f # rest) w = (Inl (FileTooLarge (name f)), calls, w1) \<and>
         message (FileTooLarge (name f)) = ''Arquivo '' @ name f @ '' excede o limite de 50MB''"
proof -
  from owner obtain p where p: "profile = Some p" "id_profile p \<noteq> []"
    by (auto simp add: profile_id_missing_def split: option.splits)
  from big have one: "upload_one env (id_profile p) f w1 = (Inl (FileTooLarge (name f)), [], w1)"
    by (simp add: upload_one_def)
  from pre p have loop: "upload_loop env (id_profile p) pre [] [] w = (Inr paths, calls, w1)"
    by (simp add: uploadFiles_present)
  have "upload_loop env (id_profile p) (pre @ f # rest) [] [] w =
          (Inl (FileTooLarge (name f)), calls, w1)"
    by (simp add: upload_loop_append loop upload_loop_Cons one)
  with p show ?thesis
    by (simp add: uploadFiles_present)
qed

theorem uploadFiles_rejects_oversize_witness:
  "\<not> profile_id_missing owner0 \<and>
   uploadFiles ref_storage owner0 [file_a] world0 =
     (Inr [''u1/5-a.pdf''], [ok_interaction 5 ''u1/5-a.pdf'' file_a], world1) \<and>
   size_f file_b > 50 * 1024 * 1024 \<and>
   uploadFiles ref_storage owner0 ([file_a] @ file_b # [file_d]) world0 =
     (Inl (FileTooLarge ''b.pdf''), [ok_interaction 5 ''u1/5-a.pdf'' file_a], world1) \<and>
   message (FileTooLarge ''b.pdf'') = ''Arquivo b.pdf excede o limite de 50MB''"
proof -
  have owner: "\<not> profile_id_missing owner0"
    by (simp add: profile_id_missing_def owner0_def)
  have big: "size_f file_b > 50 * 1024 * 1024"
    by (simp add: file_b_def)
  have n: "name file_b = ''b.pdf''"
    by (simp add: file_b_def)
  from uploadFiles_rejects_oversize [OF owner run_a big, of "[file_d]"] owner run_a big n
  show ?thesis by simp
qed

subsection \<open>Nothing to upload\<close>

text \<open>
  C8. For an empty list of files \<^verbatim>\<open>uploadFiles\<close> returns the empty list of paths, throws
  nothing, makes no storage call and leaves the outside world untouched.
\<close>

theorem uploadFiles_empty: "uploadFiles env profile [] w = (Inr [], [], w)"
  by (simp add: uploadFiles_def split: option.splits)

text \<open>
  C10. When the owner id is absent (no profile, or an empty id), \<^verbatim>\<open>uploadFiles\<close> returns
  the empty list of paths for any list of files, a non-empty one included: it throws
  nothing and makes no storage call, so the files are dropped without notice.
\<close>

theorem uploadFiles_missing_owner:
  "profile_id_missing profile \<Longrightarrow> uploadFiles env profile files w = (Inr [], [], w)"
  by (simp add: uploadFiles_def profile_id_missing_def split: option.splits)

theorem uploadFiles_missing_owner_witness:
  "profile_id_missing None \<and>
   uploadFiles ref_storage None [file_a, file_d] world0 = (Inr [], [], world0) \<and>
   profile_id_missing (Some \<lparr>id_profile = []\<rparr>) \<and>
   uploadFiles ref_storage (Some \<lparr>id_profile = []\<rparr>) [file_a, file_d] world0 = (Inr [], [], world0)"
proof -
  have a: "profile_id_missing None"
    by (simp add: profile_id_missing_def)
  have b: "profile_id_missing (Some \<lparr>id_profile = []\<rparr>)"
    by (simp add: profile_id_missing_def)
  from uploadFiles_missing_owner [OF a, where env = ref_storage and files = "[file_a, file_d]" and w = world0]
    uploadFiles_missing_owner [OF b, where env = ref_storage and files = "[file_a, file_d]" and w = world0]
    a b
  show ?thesis by simp
qed

subsection \<open>Successful uploads\<close>

text \<open>
  C7. With an owner id present, let \<^verbatim>\<open>uploadFiles\<close> return a list of paths. Then one
  storage call was made per file, in the order of the files, and the paths returned are the
  paths of the answers in that same order. Each call goes to the bucket
  \<^verbatim>\<open>request-attachments\<close> and stores its file under the key
  \<^verbatim>\<open>{ownerId}/{timestamp}-{originalFileName}\<close>: the owner id, a slash, the decimal numeral
  of the timestamp read for that file (digits only, no leading zero, reading back as the
  timestamp), a hyphen, and the name of the file. Each call asks for no overwrite
  (\<^verbatim>\<open>upsert: false\<close>); whenever the storage service honours that option, every object that
  was stored before the call is still stored, unchanged, after it.
\<close>

theorem uploadFiles_success_layout:
  assumes owner: "profile = Some p" "id_profile p \<noteq> []"
    and ok: "uploadFiles env profile files w = (Inr paths, calls, w')"
  shows "map (\<lambda>i. data_path (response i)) calls = map Some paths \<and>
         map (\<lambda>i. body (call i)) calls = files \<and>
         (\<forall>i\<in>set calls.
            path (call i) =
              id_profile p @ ''/'' @ decimal (stamp i) @ ''-'' @ name (body (call i)) \<and>
            read_decimal (decimal (stamp i)) = stamp i \<and>
            list_all is_digit (decimal (stamp i)) \<and>
            (stamp i = 0 \<or> hd (decimal (stamp i)) \<noteq> CHR ''0'') \<and>
            bucket (call i) = ''request-attachments'' \<and>
            \<not> upsert (call i)) \<and>
         (honours_no_upsert env \<longrightarrow>
            (\<forall>k v. stored env w k = Some v \<longrightarrow> stored env w' k = Some v))"
proof -
  from owner ok have loop: "upload_loop env (id_profile p) files [] [] w = (Inr paths, calls, w')"
    by (simp add: uploadFiles_present)
  from upload_loop_success_key [OF loop] have
    "map (\<lambda>i. data_path (response i)) calls = map Some paths \<and>
     map (\<lambda>i. body (call i)) calls = files \<and>
     (\<forall>i\<in>set calls.
        path (call i) = id_profile p @ ''/'' @ decimal (stamp i) @ ''-'' @ name (body (call i)) \<and>
        bucket (call i) = ''request-attachments'' \<and> \<not> upsert (call i))"
    by auto
  moreover have "\<forall>i\<in>set calls. read_decimal (decimal (stamp i)) = stamp i \<and>
      list_all is_digit (decimal (stamp i)) \<and>
      (stamp i = 0 \<or> hd (decimal (stamp i)) \<noteq> CHR ''0'')"
    using decimal_read decimal_digits decimal_no_leading_zero by blast
  moreover have "honours_no_upsert env \<longrightarrow>
      (\<forall>k v. stored env w k = Some v \<longrightarrow> stored env w' k = Some v)"
    using upload_loop_keeps [OF _ _ loop] by blast
  ultimately show ?thesis by blast
qed

theorem uploadFiles_success_layout_witness:
  "uploadFiles ref_storage owner1 [file_a, file_d] world_ms =
     (Inr [''7f3c-user/1730626800123-a.pdf'', ''7f3c-user/1730626800124-d.png''],
      [ok_interaction 1730626800123 ''7f3c-user/1730626800123-a.pdf'' file_a,
       ok_interaction 1730626800124 ''7f3c-user/1730626800124-d.png'' file_d], world_ms2) \<and>
   map (\<lambda>i. data_path (response i))
     [ok_interaction 1730626800123 ''7f3c-user/1730626800123-a.pdf'' file_a,
      ok_interaction 1730626800124 ''7f3c-user/1730626800124-d.png'' file_d] =
     map Some [''7f3c-user/1730626800123-a.pdf'', ''7f3c-user/1730626800124-d.png''] \<and>
   map (\<lambda>i. body (call i))
     [ok_interaction 1730626800123 ''7f3c-user/1730626800123-a.pdf'' file_a,
      ok_interaction 1730626800124 ''7f3c-user/1730626800124-d.png'' file_d] =
     [file_a, file_d] \<and>
   path (call (ok_interaction 1730626800124 ''7f3c-user/1730626800124-d.png'' file_d)) =
     ''7f3c-user'' @ ''/'' @ ''1730626800124'' @ ''-'' @ ''d.png'' \<and>
   decimal 1730626800124 = ''1730626800124'' \<and>
   read_decimal ''1730626800124'' = 1730626800124 \<and>
   list_all is_digit ''1730626800124'' \<and>
   hd ''1730626800124'' \<noteq> CHR ''0'' \<and>
   \<not> upsert (call (ok_interaction 1730626800124 ''7f3c-user/1730626800124-d.png'' file_d)) \<and>
   honours_no_upsert ref_storage \<and>
   stored ref_storage world_ms ''7f3c-user/1730626700000-old.pdf'' = Some file_old \<and>
   stored ref_storage world_ms2 ''7f3c-user/1730626700000-old.pdf'' = Some file_old"
proof -
  have o: "owner1 = Some \<lparr>id_profile = ''7f3c-user''\<rparr>"
    "id_profile \<lparr>id_profile = ''7f3c-user''\<rparr> \<noteq> []"
    by (simp_all add: owner1_def)
  have old: "stored ref_storage world_ms ''7f3c-user/1730626700000-old.pdf'' = Some file_old"
    by (simp add: ref_storage_def world_ms_def)
  have d: "stamp (ok_interaction 1730626800124 ''7f3c-user/1730626800124-d.png'' file_d) =
      1730626800124"
    "name (body (call (ok_interaction 1730626800124 ''7f3c-user/1730626800124-d.png'' file_d))) =
      ''d.png''"
    by (simp_all add: ok_interaction_def file_d_def)
  from uploadFiles_success_layout [OF o run_ms] ref_storage_honours old d run_ms decimal_ms1
  show ?thesis by simp
qed

section \<open>Properties of the submission\<close>





subsection \<open>Dependents at submission\<close>









end
